theory Spec2Isabelle
  imports Complex_Main "HOL-Library.AList" "HOL-Library.Log_Nat" "HOL-Library.Word"
begin

section \<open>Python values used by app.py\<close>

text \<open>
  Text is modelled as a list of 8-bit characters read as Latin-1 code points: every
  character of the ten indicator names, of the dictionary keys and of the literals of
  app.py lies in that range. The string methods below are Python's, restricted to that
  range.
\<close>

text \<open>\<open>str.isspace\<close> on one character: the code points 9-13, 28-32, 0x85 and 0xA0
  are the white space of the Latin-1 range.\<close>

definition py_isspace :: "char \<Rightarrow> bool" where
  "py_isspace c =
     (let n = (of_char c :: nat)
      in (9 \<le> n \<and> n \<le> 13) \<or> (28 \<le> n \<and> n \<le> 32) \<or> n = 133 \<or> n = 160)"

text \<open>\<open>s.strip()\<close>: white space removed at both ends.\<close>

definition py_strip :: "string \<Rightarrow> string" where
  "py_strip s = rev (dropWhile py_isspace (rev (dropWhile py_isspace s)))"

text \<open>\<open>s.lower()\<close>: A-Z and the upper-case letters 0xC0-0xDE (without the
  multiplication sign 0xD7) move up by 32, every other character stays.\<close>

definition lower_char :: "char \<Rightarrow> char" where
  "lower_char c =
     (let n = (of_char c :: nat)
      in if (65 \<le> n \<and> n \<le> 90) \<or> (192 \<le> n \<and> n \<le> 222 \<and> n \<noteq> 215)
         then char_of (n + 32) else c)"

definition py_lower :: "string \<Rightarrow> string" where
  "py_lower s = map lower_char s"

text \<open>\<open>s.endswith(suf)\<close>.\<close>

definition py_endswith :: "string \<Rightarrow> string \<Rightarrow> bool" where
  "py_endswith s suf =
     (length suf \<le> length s \<and> drop (length s - length suf) s = suf)"

text \<open>\<open>s.replace(old, new)\<close>: every occurrence of \<open>old\<close>, found from the left
  and without overlaps, becomes \<open>new\<close>; an empty \<open>old\<close> matches before every
  character and at the end.\<close>

fun py_replace :: "string \<Rightarrow> string \<Rightarrow> string \<Rightarrow> string" where
  "py_replace [] new s = new @ concat (map (\<lambda>c. c # new) s)"
| "py_replace (a # old) new [] = []"
| "py_replace (a # old) new (c # cs) =
     (if take (Suc (length old)) (c # cs) = a # old
      then new @ py_replace (a # old) new (drop (length old) cs)
      else c # py_replace (a # old) new cs)"

text \<open>\<open>s.split(sep)\<close> for a separator of one character: the pieces between the
  separators, never an empty list.\<close>

fun py_split :: "char \<Rightarrow> string \<Rightarrow> string list" where
  "py_split sep [] = [[]]"
| "py_split sep (c # cs) =
     (if c = sep then [] # py_split sep cs
      else (case py_split sep cs of
              [] \<Rightarrow> [[c]]
            | w # ws \<Rightarrow> (c # w) # ws))"

text \<open>The exceptions the code can meet: an out-of-range position in \<open>.iloc\<close> or in a
  list, a missing dictionary key, an attribute read on \<open>None\<close>, a division by zero,
  and whatever a library call raises (kept with its message).\<close>

datatype py_exception =
  IndexError | KeyError | AttributeError | ZeroDivisionError | LibraryError string

definition bind_exc :: "py_exception + 'a \<Rightarrow> ('a \<Rightarrow> py_exception + 'b) \<Rightarrow> py_exception + 'b" where
  "bind_exc m f = (case m of Inl e \<Rightarrow> Inl e | Inr v \<Rightarrow> f v)"

text \<open>\<open>xs[0]\<close> on a list.\<close>

definition item0 :: "'a list \<Rightarrow> py_exception + 'a" where
  "item0 xs = (case xs of [] \<Rightarrow> Inl IndexError | x # _ \<Rightarrow> Inr x)"

text \<open>\<open>d[k]\<close> on a dictionary, kept as an association list in insertion order.\<close>

definition getitem :: "('k \<times> 'v) list \<Rightarrow> 'k \<Rightarrow> py_exception + 'v" where
  "getitem d k = (case map_of d k of None \<Rightarrow> Inl KeyError | Some v \<Rightarrow> Inr v)"

section \<open>Python numbers\<close>

text \<open>
  A Python number is kept as the rational it denotes: an \<open>int\<close> exactly, a
  \<open>float\<close> as the value of its binary64 representation (\<open>1\<close> and \<open>1.0\<close> are one
  number). Every float operation rounds its exact result to the nearest binary64 value,
  ties to the even mantissa. The exponent range of the format is not modelled: the
  numbers of app.py lie between 0 and 10.
\<close>

text \<open>Rounding to the nearest integer, a tie to the even one.\<close>

definition redondeo_par :: "rat \<Rightarrow> int" where
  "redondeo_par x =
     (let f = \<lfloor>x\<rfloor>; d = x - of_int f
      in if d < 1 / 2 then f else if 1 / 2 < d then f + 1
         else if even f then f else f + 1)"

text \<open>The binary exponent of a number other than 0: \<open>2 ^ e \<le> |x| < 2 ^ (e + 1)\<close>.\<close>

definition exponente :: "rat \<Rightarrow> int" where
  "exponente x =
     (let d = bitlen (fst (quotient_of \<bar>x\<bar>)) - bitlen (snd (quotient_of \<bar>x\<bar>))
      in if 2 powi d \<le> \<bar>x\<bar> then d else d - 1)"

text \<open>The binary64 value nearest to \<open>x\<close>: 53 bits of mantissa.\<close>

definition binary64 :: "rat \<Rightarrow> rat" where
  "binary64 x =
     (if x = 0 then 0
      else let ulp = 2 powi (exponente x - 52)
           in of_int (redondeo_par (x / ulp)) * ulp)"

text \<open>\<open>a + b\<close> and \<open>a / b\<close> where one operand is a float (or, for \<open>/\<close>, both are
  ints): the exact result, rounded. The sum of two ints is exact, and for ints as small
  as those of app.py the rounding leaves it so. Division by zero raises.\<close>

definition float_add :: "rat \<Rightarrow> rat \<Rightarrow> rat" where
  "float_add a b = binary64 (a + b)"

definition truediv :: "rat \<Rightarrow> rat \<Rightarrow> py_exception + rat" where
  "truediv a b = (if b = 0 then Inl ZeroDivisionError else Inr (binary64 (a / b)))"

text \<open>The builtin \<open>sum\<close> as CPython 3.11 computes it: from the int 0, the values are
  added from the left, each addition rounded. (From version 3.12 on, \<open>sum\<close> carries a
  correction term for floats, which can change the last bit of the result.)\<close>

definition py_sum :: "rat list \<Rightarrow> rat" where
  "py_sum xs = foldl float_add 0 xs"

section \<open>The sheet read by pandas\<close>

text \<open>
  A cell of a DataFrame read with \<open>header=None\<close>: a missing value (\<open>NaN\<close>), a text,
  or any other value (a number, a boolean, a date). The function uses a cell in three
  ways only: \<open>pd.isna\<close>, comparison with an indicator name, and \<open>str\<close>; a value that is
  neither missing nor text is therefore kept as the text \<open>str\<close> prints for it.
\<close>

datatype cell = NaN | Str string | Other string

fun py_str :: "cell \<Rightarrow> string" where
  "py_str NaN = ''nan''"
| "py_str (Str s) = s"
| "py_str (Other s) = s"

definition isna :: "cell \<Rightarrow> bool" where
  "isna v = (v = NaN)"

text \<open>\<open>v == name\<close> for one element of a column: true for a text equal to the name.\<close>

definition eq_name :: "cell \<Rightarrow> string \<Rightarrow> bool" where
  "eq_name v name = (v = Str name)"

text \<open>The DataFrame: \<open>shape = (nrows, ncols)\<close> and the cell at each position inside
  the shape. Rows and columns carry the default labels 0, 1, 2, ... so a row label is
  the row's position.\<close>

record dataframe =
  nrows :: nat
  ncols :: nat
  celda :: "nat \<Rightarrow> nat \<Rightarrow> cell"

text \<open>\<open>df.iloc[r, c]\<close> raises IndexError outside the shape.\<close>

definition iloc :: "dataframe \<Rightarrow> nat \<Rightarrow> nat \<Rightarrow> py_exception + cell" where
  "iloc df r c =
     (if r < nrows df \<and> c < ncols df then Inr (celda df r c) else Inl IndexError)"

text \<open>\<open>df.iloc[:, c]\<close>: the column as a list, IndexError when there is no such column.\<close>

definition iloc_col :: "dataframe \<Rightarrow> nat \<Rightarrow> py_exception + cell list" where
  "iloc_col df c =
     (if c < ncols df then Inr (map (\<lambda>r. celda df r c) [0..<nrows df])
      else Inl IndexError)"

section \<open>Global tables of app.py\<close>

text \<open>The weights: the ints 0 and 1 and the float literals \<open>0.4\<close> and \<open>0.8\<close>.\<close>

definition COLUMNAS_CALIFICACION :: "(string \<times> rat) list" where
  "COLUMNAS_CALIFICACION =
     [(''N'', 0), (''P'', binary64 (4 / 10)), (''T'', binary64 (8 / 10)), (''E'', 1)]"

text \<open>The ten indicator names; the accented letters are written by code point
  (0xF3 o acute, 0xED i acute).\<close>

definition INDICADORES_A_EVALUAR :: "string list" where
  "INDICADORES_A_EVALUAR =
     [''Datos de actividad'',
      ''Factores de emisi'' @ [char_of (0xF3 :: nat)] @ ''n'',
      ''Alcance 1'',
      ''Alcance 2'',
      ''Alcance 3'',
      ''Categor'' @ [char_of (0xED :: nat)] @ ''as excluidas'',
      ''Consolidaci'' @ [char_of (0xF3 :: nat)] @ ''n'',
      ''Auditor'' @ [char_of (0xED :: nat)] @ ''a'',
      ''Compromisos de reducci'' @ [char_of (0xF3 :: nat)] @ ''n'',
      ''Evaluaci'' @ [char_of (0xF3 :: nat)] @ ''n de incertidumbre'']"

section \<open>procesar\_evaluacion\_empresa\<close>

text \<open>
  Line 79: the labels of the rows whose column 0 or column 1 equals the indicator name.
  Both columns are compared element by element, the two boolean columns are joined
  with \<open>|\<close>, and the rows where the mask holds are kept in sheet order.
\<close>

definition fila_indicador :: "dataframe \<Rightarrow> string \<Rightarrow> py_exception + nat list" where
  "fila_indicador df indicador_nombre =
     bind_exc (iloc_col df 0) (\<lambda>col0.
     bind_exc (iloc_col df 1) (\<lambda>col1.
       Inr (map fst (filter snd (zip [0..<nrows df]
              (map2 (\<or>) (map (\<lambda>v. eq_name v indicador_nombre) col0)
                         (map (\<lambda>v. eq_name v indicador_nombre) col1)))))))"

text \<open>
  Lines 85-92: the loop over \<open>zip([4, 5, 6, 7], COLUMNAS_CALIFICACION.keys())\<close> with
  its \<open>break\<close>; the starting value 0 is what remains when no column matches. The
  bound on the column is tested before the cell is read (\<open>and\<close> evaluates left to
  right).
\<close>

fun puntuacion_obtenida :: "dataframe \<Rightarrow> nat \<Rightarrow> (nat \<times> string) list \<Rightarrow> py_exception + rat" where
  "puntuacion_obtenida df fila_idx [] = Inr 0"
| "puntuacion_obtenida df fila_idx ((col_idx, key_calificacion) # resto) =
     (if col_idx < ncols df then
        bind_exc (iloc df fila_idx col_idx) (\<lambda>v.
          if py_lower (py_strip (py_str v)) = ''x''
          then getitem COLUMNAS_CALIFICACION key_calificacion
          else puntuacion_obtenida df fila_idx resto)
      else puntuacion_obtenida df fila_idx resto)"

definition calificacion_col_indices :: "nat list" where
  "calificacion_col_indices = [4, 5, 6, 7]"

text \<open>Lines 79-96 for one indicator: the score of the first row found, or 0 when no
  row carries the name.\<close>

definition puntuacion_indicador :: "dataframe \<Rightarrow> string \<Rightarrow> py_exception + rat" where
  "puntuacion_indicador df indicador_nombre =
     bind_exc (fila_indicador df indicador_nombre) (\<lambda>filas.
       if filas \<noteq> [] then
         bind_exc (item0 filas) (\<lambda>fila_idx.
           puntuacion_obtenida df fila_idx
             (zip calificacion_col_indices (map fst COLUMNAS_CALIFICACION)))
       else Inr 0)"

text \<open>Lines 75-96: the dictionary \<open>puntuaciones_indicadores\<close>, filled name by name.\<close>

fun puntuaciones_indicadores ::
  "dataframe \<Rightarrow> string list \<Rightarrow> (string \<times> rat) list \<Rightarrow> py_exception + (string \<times> rat) list" where
  "puntuaciones_indicadores df [] d = Inr d"
| "puntuaciones_indicadores df (indicador_nombre # resto) d =
     bind_exc (puntuacion_indicador df indicador_nombre) (\<lambda>p.
       puntuaciones_indicadores df resto (AList.update indicador_nombre p d))"

text \<open>Lines 99-102: \<open>sum(puntuaciones_indicadores.values()) / len(INDICADORES_A_EVALUAR)\<close>
  for a dictionary that is not empty.\<close>

definition cix_total :: "(string \<times> rat) list \<Rightarrow> py_exception + rat" where
  "cix_total d =
     (if d \<noteq> [] then
        truediv (py_sum (map snd d)) (of_nat (length INDICADORES_A_EVALUAR))
      else Inr 0)"

text \<open>Line 70, the fall-back organisation name:
  \<open>file_name.split('-')[0].replace(".xlsx", "").replace(".csv", "")\<close>.\<close>

definition nombre_de_archivo :: "string \<Rightarrow> py_exception + string" where
  "nombre_de_archivo file_name =
     bind_exc (item0 (py_split (CHR ''-'') file_name)) (\<lambda>p.
       Inr (py_replace ''.csv'' [] (py_replace ''.xlsx'' [] p)))"

text \<open>Line 114: the column name of an indicator.\<close>

definition snake :: "string \<Rightarrow> string" where
  "snake key = py_replace ''-'' ''_'' (py_replace '' '' ''_'' (py_lower key))"

text \<open>A value of the resulting dictionary: what a cell held (or a fall-back text), or
  a score.\<close>

datatype pyval = Cell cell | Num rat

type_synonym registro = "(string \<times> pyval) list"

text \<open>Lines 106-114: the dictionary \<open>db_data\<close>, its four fixed keys first, then one
  assignment per entry of \<open>puntuaciones_indicadores\<close>.\<close>

definition db_data :: "cell \<Rightarrow> cell \<Rightarrow> cell \<Rightarrow> rat \<Rightarrow> (string \<times> rat) list \<Rightarrow> registro" where
  "db_data nombre_organizacion periodo_informe enlace_documentacion cix d =
     fold (\<lambda>(key, value). AList.update (snake key) (Num value)) d
       [(''organizacion_nombre'', Cell nombre_organizacion),
        (''periodo_informe'', Cell periodo_informe),
        (''enlace_original_documentacion'', Cell enlace_documentacion),
        (''cix_total'', Num cix)]"

text \<open>Lines 66-116: everything after the sheet has been read. In each conditional
  expression the test \<open>pd.isna(df_raw.iloc[r, 1])\<close> is evaluated first, so a cell
  outside the sheet raises before any fall-back is looked at.\<close>

definition extraer_datos :: "dataframe \<Rightarrow> string \<Rightarrow> py_exception + registro" where
  "extraer_datos df_raw file_name =
     bind_exc (iloc df_raw 5 1) (\<lambda>v5.
     bind_exc (if \<not> isna v5 then iloc df_raw 5 1
               else bind_exc (nombre_de_archivo file_name) (\<lambda>s. Inr (Str s)))
       (\<lambda>nombre_organizacion.
     bind_exc (iloc df_raw 6 1) (\<lambda>v6.
     bind_exc (if \<not> isna v6 then iloc df_raw 6 1 else Inr (Str ''Desconocido''))
       (\<lambda>periodo_informe.
     bind_exc (iloc df_raw 7 1) (\<lambda>v7.
     bind_exc (if \<not> isna v7 then iloc df_raw 7 1 else Inr (Str ''N/A''))
       (\<lambda>enlace_documentacion.
     bind_exc (puntuaciones_indicadores df_raw INDICADORES_A_EVALUAR []) (\<lambda>d.
     bind_exc (cix_total d) (\<lambda>cix.
       Inr (db_data nombre_organizacion periodo_informe enlace_documentacion cix d)))))))))"

text \<open>
  The two ways the function ends without a dictionary. Both return \<open>None\<close> after a
  call of \<open>st.error\<close>; they differ in the message: line 63 names the file and the two
  supported formats, line 119 names the file and the exception caught.
\<close>

datatype failure = UnsupportedFormat string | MalformedInput string py_exception

type_synonym bytes = "8 word list"

text \<open>\<open>pd.read_csv\<close> and \<open>pd.read_excel\<close> (with \<open>header=None\<close>) are library
  functions: each takes the bytes of the file and returns a sheet or raises. The
  caller (line 290) hands over a fresh \<open>BytesIO\<close> of the uploaded bytes, read from its
  start.\<close>

record lectores =
  read_csv :: "bytes \<Rightarrow> py_exception + dataframe"
  read_excel :: "bytes \<Rightarrow> py_exception + dataframe"

text \<open>Lines 58-64: the choice of the reader by the lower-cased file name; \<open>None\<close> is the
  \<open>else\<close> branch.\<close>

definition leer_archivo :: "lectores \<Rightarrow> bytes \<Rightarrow> string \<Rightarrow> (py_exception + dataframe) option" where
  "leer_archivo pd file_bytes file_name =
     (if py_endswith (py_lower file_name) ''.csv'' then Some (read_csv pd file_bytes)
      else if py_endswith (py_lower file_name) ''.xlsx'' then Some (read_excel pd file_bytes)
      else None)"

text \<open>Lines 50-120, the body of the function: the \<open>try\<close> block turns every exception
  of the reading and of the extraction into the failure of line 119. The progress
  notice of line 55 and the decorator of line 49, which stores results under the
  arguments of the call, do not touch the result and are left out.\<close>

definition procesar_evaluacion_empresa :: "lectores \<Rightarrow> bytes \<Rightarrow> string \<Rightarrow> failure + registro" where
  "procesar_evaluacion_empresa pd file_bytes file_name =
     (case leer_archivo pd file_bytes file_name of
        None \<Rightarrow> Inl (UnsupportedFormat file_name)
      | Some (Inl e) \<Rightarrow> Inl (MalformedInput file_name e)
      | Some (Inr df_raw) \<Rightarrow>
          (case extraer_datos df_raw file_name of
             Inl e \<Rightarrow> Inl (MalformedInput file_name e)
           | Inr r \<Rightarrow> Inr r))"

section \<open>eliminar\_evaluacion\_de\_db\<close>

text \<open>
  What a call of the backend client hands back, as far as the function looks at it:
  \<open>None\<close>, a list (the storage client answers \<open>remove\<close> with the list of the
  objects it removed), or a response object with the attributes \<open>.data\<close> (here: is
  it non-empty?) and \<open>.error\<close> (\<open>None\<close>, or an error with its \<open>.message\<close>).
\<close>

record respuesta =
  data :: bool
  error :: "string option"

datatype py_object = PyNone | PyList "string list" | Response respuesta

text \<open>\<open>bool(obj)\<close>: \<open>None\<close> and the empty list are false.\<close>

fun truthy :: "py_object \<Rightarrow> bool" where
  "truthy PyNone = False"
| "truthy (PyList xs) = (xs \<noteq> [])"
| "truthy (Response r) = True"

text \<open>\<open>obj.error\<close> and \<open>obj.data\<close>: \<open>None\<close> and a list have no such attribute.\<close>

fun getattr_error :: "py_object \<Rightarrow> py_exception + string option" where
  "getattr_error (Response r) = Inr (error r)"
| "getattr_error obj = Inl AttributeError"

fun getattr_data :: "py_object \<Rightarrow> py_exception + bool" where
  "getattr_data (Response r) = Inr (data r)"
| "getattr_data obj = Inl AttributeError"

text \<open>\<open>err.message\<close> where \<open>err\<close> is the value of \<open>.error\<close>.\<close>

fun getattr_message :: "string option \<Rightarrow> py_exception + string" where
  "getattr_message (Some message) = Inr message"
| "getattr_message None = Inl AttributeError"

text \<open>The backend with a state of type \<open>'s\<close>: \<open>storage.from_(bucket).remove(names)\<close>
  and \<open>table('evaluaciones').delete().eq('id', eval_id).execute()\<close>, each returning
  what the caller sees, an object or an exception, and the state it leaves.\<close>

record 's supabase =
  storage_remove :: "string list \<Rightarrow> 's \<Rightarrow> (py_exception + py_object) \<times> 's"
  table_delete_eq_id :: "string \<Rightarrow> 's \<Rightarrow> (py_exception + py_object) \<times> 's"

text \<open>The notices of the function, one constructor per call of \<open>st.warning\<close>,
  \<open>st.success\<close> and \<open>st.error\<close>: lines 196, 198, 205, 207 and 209.\<close>

datatype aviso =
    Warning_storage string string
  | Success_storage string
  | Success_db
  | Error_db string
  | Error_excepcion py_exception

text \<open>Lines 195-198. \<open>res_storage and res_storage.error\<close> reads \<open>.error\<close> only of an
  object that is true, and raises when that object has no such attribute.\<close>

definition aviso_storage :: "string \<Rightarrow> py_object \<Rightarrow> py_exception + aviso" where
  "aviso_storage file_name_in_storage res_storage =
     (if truthy res_storage then
        bind_exc (getattr_error res_storage) (\<lambda>err.
          (case err of
             Some message \<Rightarrow> Inr (Warning_storage file_name_in_storage message)
           | None \<Rightarrow> Inr (Success_storage file_name_in_storage)))
      else Inr (Success_storage file_name_in_storage))"

text \<open>Lines 204-207. \<open>response.error.message\<close> is read whenever \<open>response.data\<close> is
  empty, also when \<open>response.error\<close> is \<open>None\<close>.\<close>

definition aviso_db :: "py_object \<Rightarrow> py_exception + aviso" where
  "aviso_db response =
     bind_exc (getattr_data response) (\<lambda>d.
       if d then Inr Success_db
       else bind_exc (getattr_error response) (\<lambda>err.
              bind_exc (getattr_message err) (\<lambda>message. Inr (Error_db message))))"

text \<open>Lines 189-209. One \<open>try\<close> block holds everything, so the first exception,
  wherever it is raised, ends the function with the notice of line 209.\<close>

definition eliminar_evaluacion_de_db ::
  "'s supabase \<Rightarrow> string \<Rightarrow> string \<Rightarrow> 's \<Rightarrow> aviso list \<times> 's" where
  "eliminar_evaluacion_de_db sb eval_id file_name_in_storage s =
     (case storage_remove sb [file_name_in_storage] s of
        (Inl e, s1) \<Rightarrow> ([Error_excepcion e], s1)
      | (Inr res_storage, s1) \<Rightarrow>
          (case aviso_storage file_name_in_storage res_storage of
             Inl e \<Rightarrow> ([Error_excepcion e], s1)
           | Inr aviso1 \<Rightarrow>
               (case table_delete_eq_id sb eval_id s1 of
                  (Inl e, s2) \<Rightarrow> ([aviso1, Error_excepcion e], s2)
                | (Inr response, s2) \<Rightarrow>
                    (case aviso_db response of
                       Inl e \<Rightarrow> ([aviso1, Error_excepcion e], s2)
                     | Inr aviso2 \<Rightarrow> ([aviso1, aviso2], s2)))))"

section \<open>Notions used to state the properties\<close>

text \<open>Row \<open>i\<close> carries the indicator name in column 0 or in column 1.\<close>

definition coincide :: "dataframe \<Rightarrow> string \<Rightarrow> nat \<Rightarrow> bool" where
  "coincide df nombre i = (eq_name (celda df i 0) nombre \<or> eq_name (celda df i 1) nombre)"

text \<open>Column \<open>c\<close> exists and the cell of row \<open>r\<close> there reads "x" once converted to
  text, stripped and lower-cased.\<close>

definition marca :: "dataframe \<Rightarrow> nat \<Rightarrow> nat \<Rightarrow> bool" where
  "marca df r c = (c < ncols df \<and> py_lower (py_strip (py_str (celda df r c))) = ''x'')"

text \<open>The first row that carries the name, if any.\<close>

definition primera_fila :: "dataframe \<Rightarrow> string \<Rightarrow> nat option" where
  "primera_fila df nombre = find (coincide df nombre) [0..<nrows df]"

text \<open>The weight read from one row: columns 4, 5, 6, 7 from left to right.\<close>

definition puntos_fila :: "dataframe \<Rightarrow> nat \<Rightarrow> rat" where
  "puntos_fila df r =
     (if marca df r 4 then 0 else if marca df r 5 then binary64 (4 / 10)
      else if marca df r 6 then binary64 (8 / 10) else if marca df r 7 then 1 else 0)"

definition puntuacion :: "dataframe \<Rightarrow> string \<Rightarrow> rat" where
  "puntuacion df nombre =
     (case primera_fila df nombre of None \<Rightarrow> 0 | Some i \<Rightarrow> puntos_fila df i)"

definition prefijo_archivo :: "string \<Rightarrow> string" where
  "prefijo_archivo file_name =
     py_replace ''.csv'' [] (py_replace ''.xlsx'' []
       (takeWhile (\<lambda>c. c \<noteq> CHR ''-'') file_name))"

definition claves_fijas :: "string list" where
  "claves_fijas = [''organizacion_nombre'', ''periodo_informe'',
     ''enlace_original_documentacion'', ''cix_total'']"

text \<open>The dictionary a sheet with at least 8 rows and 2 columns gives, written out.\<close>

definition registro_de :: "dataframe \<Rightarrow> string \<Rightarrow> registro" where
  "registro_de df file_name =
     [(''organizacion_nombre'',
         Cell (if isna (celda df 5 1) then Str (prefijo_archivo file_name) else celda df 5 1)),
      (''periodo_informe'',
         Cell (if isna (celda df 6 1) then Str ''Desconocido'' else celda df 6 1)),
      (''enlace_original_documentacion'',
         Cell (if isna (celda df 7 1) then Str ''N/A'' else celda df 7 1)),
      (''cix_total'',
         Num (binary64 (py_sum (map (puntuacion df) INDICADORES_A_EVALUAR) / 10)))]
     @ map (\<lambda>nombre. (snake nombre, Num (puntuacion df nombre))) INDICADORES_A_EVALUAR"

text \<open>The sheet widened to eight columns, the new cells missing.\<close>

definition ensanchar :: "dataframe \<Rightarrow> dataframe" where
  "ensanchar df =
     \<lparr>nrows = nrows df, ncols = max 8 (ncols df),
      celda = (\<lambda>r c. if c < ncols df then celda df r c else NaN)\<rparr>"


section \<open>Example inputs\<close>

text \<open>
  A sheet of ten rows and eight columns after the template: the organisation, period
  and link cells are blank; row 3 carries "Alcance 2" in column 1 with marks in
  columns 5 and 6; row 8 carries "Alcance 1" in column 0 with marks in columns 6
  and 7; row 9 carries "Alcance 1" again, in column 1, with a mark in column 4.
\<close>

definition hoja_ejemplo :: dataframe where
  "hoja_ejemplo =
     \<lparr>nrows = 10, ncols = 8,
      celda = (\<lambda>r c.
        if r = 3 \<and> c = 1 then Str ''Alcance 2''
        else if r = 3 \<and> c = 5 then Str ''x''
        else if r = 3 \<and> c = 6 then Str ''x''
        else if r = 8 \<and> c = 0 then Str ''Alcance 1''
        else if r = 8 \<and> c = 6 then Str '' X ''
        else if r = 8 \<and> c = 7 then Str ''x''
        else if r = 9 \<and> c = 1 then Str ''Alcance 1''
        else if r = 9 \<and> c = 4 then Str ''x''
        else NaN)\<rparr>"

text \<open>A sheet of three rows: the metadata rows 5 to 7 do not exist.\<close>

definition hoja_corta :: dataframe where
  "hoja_corta = \<lparr>nrows = 3, ncols = 8, celda = (\<lambda>r c. Str ''texto'')\<rparr>"

text \<open>A sheet of nine rows and six columns: filled metadata, "Alcance 3" in row 4
  without a mark, "Alcance 2" in row 8 with a mark in column 5; the rating columns 6
  and 7 do not exist.\<close>

definition hoja_estrecha :: dataframe where
  "hoja_estrecha =
     \<lparr>nrows = 9, ncols = 6,
      celda = (\<lambda>r c.
        if r = 5 \<and> c = 1 then Str ''Empresa Uno''
        else if r = 6 \<and> c = 1 then Str ''2024''
        else if r = 7 \<and> c = 1 then Str ''https://ejemplo.org/informe''
        else if r = 4 \<and> c = 0 then Str ''Alcance 3''
        else if r = 8 \<and> c = 0 then Str ''Alcance 2''
        else if r = 8 \<and> c = 5 then Str ''x''
        else NaN)\<rparr>"

text \<open>A stand-in for the two pandas readers: no bytes at all raise, and three one-byte
  contents stand for the three sheets above.\<close>

definition lector_ejemplo :: "bytes \<Rightarrow> py_exception + dataframe" where
  "lector_ejemplo file_bytes =
     (if file_bytes = [] then Inl (LibraryError ''No columns to parse from file'')
      else if file_bytes = [1] then Inr hoja_ejemplo
      else if file_bytes = [2] then Inr hoja_corta
      else Inr hoja_estrecha)"

definition pd_ejemplo :: lectores where
  "pd_ejemplo = \<lparr>read_csv = lector_ejemplo, read_excel = lector_ejemplo\<rparr>"

text \<open>The dictionary the first sheet gives under the name "AcmeCorp-2024.xlsx": the
  floats 0.8, 0.4 and 0.12000000000000002 are written as the fractions they denote.\<close>

definition registro_ejemplo :: registro where
  "registro_ejemplo =
     [(''organizacion_nombre'', Cell (Str ''AcmeCorp'')),
      (''periodo_informe'', Cell (Str ''Desconocido'')),
      (''enlace_original_documentacion'', Cell (Str ''N/A'')),
      (''cix_total'', Num (4323455642275677 / 36028797018963968)),
      (''datos_de_actividad'', Num 0),
      (''factores_de_emisi'' @ [char_of (0xF3 :: nat)] @ ''n'', Num 0),
      (''alcance_1'', Num (3602879701896397 / 4503599627370496)),
      (''alcance_2'', Num (3602879701896397 / 9007199254740992)),
      (''alcance_3'', Num 0),
      (''categor'' @ [char_of (0xED :: nat)] @ ''as_excluidas'', Num 0),
      (''consolidaci'' @ [char_of (0xF3 :: nat)] @ ''n'', Num 0),
      (''auditor'' @ [char_of (0xED :: nat)] @ ''a'', Num 0),
      (''compromisos_de_reducci'' @ [char_of (0xF3 :: nat)] @ ''n'', Num 0),
      (''evaluaci'' @ [char_of (0xF3 :: nat)] @ ''n_de_incertidumbre'', Num 0)]"

text \<open>A backend for the examples: the state is the list of stored file names and the
  list of row identifiers. Removing a file that is not stored, or a row that does not
  exist, answers with an error in the response and changes nothing.\<close>

record backend_ejemplo =
  archivos :: "string list"
  filas_db :: "string list"

definition remove_ejemplo ::
  "string list \<Rightarrow> backend_ejemplo \<Rightarrow> (py_exception + py_object) \<times> backend_ejemplo" where
  "remove_ejemplo names s =
     (if list_all (\<lambda>f. f \<in> set (archivos s)) names
      then (Inr (Response \<lparr>data = True, error = None\<rparr>),
            s\<lparr>archivos := filter (\<lambda>f. f \<notin> set names) (archivos s)\<rparr>)
      else (Inr (Response \<lparr>data = False, error = Some ''Object not found''\<rparr>), s))"

definition delete_ejemplo ::
  "string \<Rightarrow> backend_ejemplo \<Rightarrow> (py_exception + py_object) \<times> backend_ejemplo" where
  "delete_ejemplo eval_id s =
     (if eval_id \<in> set (filas_db s)
      then (Inr (Response \<lparr>data = True, error = None\<rparr>),
            s\<lparr>filas_db := filter (\<lambda>i. i \<noteq> eval_id) (filas_db s)\<rparr>)
      else (Inr (Response \<lparr>data = False, error = Some ''no rows''\<rparr>), s))"

definition supabase_ejemplo :: "backend_ejemplo supabase" where
  "supabase_ejemplo =
     \<lparr>storage_remove = remove_ejemplo, table_delete_eq_id = delete_ejemplo\<rparr>"

text \<open>The same backend when the storage service cannot be reached: the call raises.\<close>

definition supabase_sin_storage :: "backend_ejemplo supabase" where
  "supabase_sin_storage =
     \<lparr>storage_remove = (\<lambda>names s. (Inl (LibraryError ''connection refused''), s)),
      table_delete_eq_id = delete_ejemplo\<rparr>"

text \<open>The same backend with a storage client that answers \<open>remove\<close> with the list of
  the names it removed.\<close>

definition remove_lista ::
  "string list \<Rightarrow> backend_ejemplo \<Rightarrow> (py_exception + py_object) \<times> backend_ejemplo" where
  "remove_lista names s =
     (Inr (PyList (filter (\<lambda>f. f \<in> set (archivos s)) names)),
      s\<lparr>archivos := filter (\<lambda>f. f \<notin> set names) (archivos s)\<rparr>)"

definition supabase_lista :: "backend_ejemplo supabase" where
  "supabase_lista = \<lparr>storage_remove = remove_lista, table_delete_eq_id = delete_ejemplo\<rparr>"

text \<open>The first sheet with its row 9 replaced: the name again in column 1, the mark
  now in column 7; and readers that give this sheet for any bytes.\<close>

definition fila_otra :: "nat \<Rightarrow> cell" where
  "fila_otra c = (if c = 1 then Str ''Alcance 1'' else if c = 7 then Str ''x'' else NaN)"

definition hoja_otra :: dataframe where
  "hoja_otra = hoja_ejemplo\<lparr>celda := (celda hoja_ejemplo)(9 := fila_otra)\<rparr>"

definition pd_otra :: lectores where
  "pd_otra = \<lparr>read_csv = (\<lambda>file_bytes. Inr hoja_otra), read_excel = (\<lambda>file_bytes. Inr hoja_otra)\<rparr>"

text \<open>A state of the example backend: two stored files, two rows.\<close>

definition estado_ejemplo :: backend_ejemplo where
  "estado_ejemplo = \<lparr>archivos = [''a.csv'', ''otro.csv''], filas_db = [''id-1'', ''id-2'']\<rparr>"

section \<open>The function in closed form\<close>

lemma bind_exc_simps [simp]:
  "bind_exc (Inl e) f = Inl e" "bind_exc (Inr v) f = f v"
  by (simp_all add: bind_exc_def)

lemma mask_rows:
  "map fst (filter snd (zip xs (map2 (\<or>) (map f xs) (map g xs)))) = filter (\<lambda>x. f x \<or> g x) xs"
  by (induction xs) auto

lemma fila_indicador_eq:
  "fila_indicador df nombre =
     (if 2 \<le> ncols df then Inr (filter (coincide df nombre) [0..<nrows df]) else Inl IndexError)"
proof -
  have "map fst (filter snd (zip [0..<nrows df]
          (map2 (\<or>) (map (\<lambda>r. eq_name (celda df r 0) nombre) [0..<nrows df])
                     (map (\<lambda>r. eq_name (celda df r 1) nombre) [0..<nrows df]))))
        = filter (coincide df nombre) [0..<nrows df]"
    unfolding mask_rows coincide_def ..
  then show ?thesis
    by (auto simp: fila_indicador_def iloc_col_def comp_def)
qed

lemma puntuacion_obtenida_eq:
  assumes "fila < nrows df"
  shows "puntuacion_obtenida df fila (zip calificacion_col_indices (map fst COLUMNAS_CALIFICACION)) =
     Inr (if marca df fila 4 then 0 else if marca df fila 5 then binary64 (4 / 10)
          else if marca df fila 6 then binary64 (8 / 10) else if marca df fila 7 then 1 else 0)"
  using assms
  by (simp add: calificacion_col_indices_def COLUMNAS_CALIFICACION_def iloc_def getitem_def marca_def)

lemma find_filter: "find P xs = (case filter P xs of [] \<Rightarrow> None | x # _ \<Rightarrow> Some x)"
  by (induction xs) auto

lemma primera_fila_Some:
  "primera_fila df nombre = Some i \<longleftrightarrow>
     i < nrows df \<and> coincide df nombre i \<and> (\<forall>j<i. \<not> coincide df nombre j)"
  unfolding primera_fila_def find_Some_iff
  by (auto simp: nth_upt)

lemma primera_fila_None:
  "primera_fila df nombre = None \<longleftrightarrow> (\<forall>i<nrows df. \<not> coincide df nombre i)"
  unfolding primera_fila_def find_None_iff by auto

lemma puntuacion_indicador_eq:
  "puntuacion_indicador df nombre =
     (if 2 \<le> ncols df then Inr (puntuacion df nombre) else Inl IndexError)"
proof (cases "2 \<le> ncols df")
  case False
  then show ?thesis by (simp add: puntuacion_indicador_def fila_indicador_eq)
next
  case True
  show ?thesis
  proof (cases "filter (coincide df nombre) [0..<nrows df]")
    case Nil
    then show ?thesis using True
      by (simp add: puntuacion_indicador_def fila_indicador_eq puntuacion_def
          primera_fila_def find_filter)
  next
    case (Cons i rest)
    then have "i \<in> set (filter (coincide df nombre) [0..<nrows df])" by simp
    then have "i < nrows df" by simp
    then show ?thesis using True Cons
      by (simp add: puntuacion_indicador_def fila_indicador_eq puntuacion_def
          primera_fila_def find_filter item0_def puntuacion_obtenida_eq puntos_fila_def)
  qed
qed

lemma update_fresh: "k \<notin> fst ` set d \<Longrightarrow> AList.update k v d = d @ [(k, v)]"
  by (induction d) auto

lemma puntuaciones_indicadores_eq:
  assumes "2 \<le> ncols df" "distinct (map fst d @ nombres)"
  shows "puntuaciones_indicadores df nombres d =
           Inr (d @ map (\<lambda>nombre. (nombre, puntuacion df nombre)) nombres)"
  using assms(2)
proof (induction nombres arbitrary: d)
  case Nil
  then show ?case by simp
next
  case (Cons nombre resto)
  then have fresh: "nombre \<notin> fst ` set d" by auto
  from Cons.prems have "distinct (map fst (d @ [(nombre, puntuacion df nombre)]) @ resto)"
    by auto
  from Cons.IH [OF this] show ?case
    using assms(1) by (simp add: puntuacion_indicador_eq update_fresh [OF fresh])
qed

lemma puntuaciones_indicadores_short:
  "\<not> 2 \<le> ncols df \<Longrightarrow> nombres \<noteq> [] \<Longrightarrow> puntuaciones_indicadores df nombres d = Inl IndexError"
  by (cases nombres) (simp_all add: puntuacion_indicador_eq)

lemma db_data_fold:
  "distinct (map fst base @ map (\<lambda>kv. snake (fst kv)) d) \<Longrightarrow>
     fold (\<lambda>(key, value). AList.update (snake key) (Num value)) d base =
       base @ map (\<lambda>(key, value). (snake key, Num value)) d"
proof (induction d arbitrary: base)
  case Nil
  then show ?case by simp
next
  case (Cons kv d)
  obtain k v where kv: "kv = (k, v)" by (cases kv)
  from Cons.prems kv have fresh: "snake k \<notin> fst ` set base" by auto
  from Cons.prems kv have "distinct (map fst (base @ [(snake k, Num v)]) @ map (\<lambda>kv. snake (fst kv)) d)"
    by auto
  from Cons.IH [OF this] show ?case
    by (simp add: kv update_fresh [OF fresh])
qed

lemma distinct_INDICADORES: "distinct INDICADORES_A_EVALUAR"
  by (simp add: INDICADORES_A_EVALUAR_def)

lemma length_INDICADORES: "length INDICADORES_A_EVALUAR = 10"
  by (simp add: INDICADORES_A_EVALUAR_def)

lemma snake_INDICADORES:
  "map snake INDICADORES_A_EVALUAR =
     [''datos_de_actividad'',
      ''factores_de_emisi'' @ [char_of (0xF3 :: nat)] @ ''n'',
      ''alcance_1'',
      ''alcance_2'',
      ''alcance_3'',
      ''categor'' @ [char_of (0xED :: nat)] @ ''as_excluidas'',
      ''consolidaci'' @ [char_of (0xF3 :: nat)] @ ''n'',
      ''auditor'' @ [char_of (0xED :: nat)] @ ''a'',
      ''compromisos_de_reducci'' @ [char_of (0xF3 :: nat)] @ ''n'',
      ''evaluaci'' @ [char_of (0xF3 :: nat)] @ ''n_de_incertidumbre'']"
  by code_simp

lemma distinct_claves: "distinct (claves_fijas @ map snake INDICADORES_A_EVALUAR)"
  unfolding snake_INDICADORES claves_fijas_def by simp

lemma py_split_head: "\<exists>ws. py_split sep s = takeWhile (\<lambda>c. c \<noteq> sep) s # ws"
  by (induction s) auto

lemma nombre_de_archivo_eq: "nombre_de_archivo file_name = Inr (prefijo_archivo file_name)"
proof -
  obtain ws where "py_split (CHR ''-'') file_name = takeWhile (\<lambda>c. c \<noteq> CHR ''-'') file_name # ws"
    using py_split_head by blast
  then show ?thesis
    by (simp add: nombre_de_archivo_def item0_def prefijo_archivo_def)
qed

lemma extraer_datos_small:
  assumes "\<not> (8 \<le> nrows df \<and> 2 \<le> ncols df)"
  shows "extraer_datos df file_name = Inl IndexError"
proof -
  consider "\<not> (5 < nrows df \<and> 1 < ncols df)"
    | "5 < nrows df \<and> 1 < ncols df" "\<not> 6 < nrows df"
    | "6 < nrows df \<and> 1 < ncols df" "\<not> 7 < nrows df"
    using assms by linarith
  then show ?thesis
  proof cases
    case 1
    then show ?thesis by (auto simp: extraer_datos_def iloc_def nombre_de_archivo_eq)
  next
    case 2
    then show ?thesis by (auto simp: extraer_datos_def iloc_def nombre_de_archivo_eq)
  next
    case 3
    then show ?thesis by (auto simp: extraer_datos_def iloc_def nombre_de_archivo_eq)
  qed
qed

lemma cix_total_eq:
  "cix_total (map (\<lambda>nombre. (nombre, f nombre)) INDICADORES_A_EVALUAR) =
     Inr (binary64 (py_sum (map f INDICADORES_A_EVALUAR) / 10))"
proof -
  have "INDICADORES_A_EVALUAR \<noteq> []" using length_INDICADORES by auto
  then show ?thesis
    by (simp add: cix_total_def truediv_def length_INDICADORES comp_def)
qed

lemma db_data_eq:
  "db_data a b c t (map (\<lambda>nombre. (nombre, f nombre)) INDICADORES_A_EVALUAR) =
     [(''organizacion_nombre'', Cell a), (''periodo_informe'', Cell b),
      (''enlace_original_documentacion'', Cell c), (''cix_total'', Num t)]
     @ map (\<lambda>nombre. (snake nombre, Num (f nombre))) INDICADORES_A_EVALUAR"
proof -
  have "distinct (map fst [(''organizacion_nombre'', Cell a), (''periodo_informe'', Cell b),
      (''enlace_original_documentacion'', Cell c), (''cix_total'', Num t)]
      @ map (\<lambda>kv. snake (fst kv)) (map (\<lambda>nombre. (nombre, f nombre)) INDICADORES_A_EVALUAR))"
    using distinct_claves by (simp add: claves_fijas_def comp_def)
  from db_data_fold [OF this] show ?thesis
    by (simp add: db_data_def comp_def)
qed

lemma extraer_datos_big:
  assumes "8 \<le> nrows df" "2 \<le> ncols df"
  shows "extraer_datos df file_name = Inr (registro_de df file_name)"
proof -
  have il: "iloc df 5 1 = Inr (celda df 5 1)" "iloc df 6 1 = Inr (celda df 6 1)"
    "iloc df 7 1 = Inr (celda df 7 1)"
    using assms by (simp_all add: iloc_def)
  have ps: "puntuaciones_indicadores df INDICADORES_A_EVALUAR [] =
      Inr (map (\<lambda>nombre. (nombre, puntuacion df nombre)) INDICADORES_A_EVALUAR)"
    using puntuaciones_indicadores_eq [OF assms(2), of "[]" INDICADORES_A_EVALUAR]
      distinct_INDICADORES by simp
  show ?thesis
    unfolding extraer_datos_def il ps nombre_de_archivo_eq bind_exc_simps cix_total_eq db_data_eq
      registro_de_def
    by simp
qed

lemma procesar_leido:
  "leer_archivo pd b n = Some (Inr df) \<Longrightarrow>
     procesar_evaluacion_empresa pd b n =
       (if 8 \<le> nrows df \<and> 2 \<le> ncols df then Inr (registro_de df n)
        else Inl (MalformedInput n IndexError))"
  by (simp add: procesar_evaluacion_empresa_def extraer_datos_big extraer_datos_small)

lemma procesar_Inr:
  assumes "procesar_evaluacion_empresa pd b n = Inr r"
  shows "\<exists>df. leer_archivo pd b n = Some (Inr df) \<and> 8 \<le> nrows df \<and> 2 \<le> ncols df
           \<and> r = registro_de df n"
proof (cases "leer_archivo pd b n")
  case None
  with assms show ?thesis by (simp add: procesar_evaluacion_empresa_def)
next
  case (Some res)
  show ?thesis
  proof (cases res)
    case (Inl e)
    with Some assms show ?thesis by (simp add: procesar_evaluacion_empresa_def)
  next
    case (Inr df)
    with Some have "leer_archivo pd b n = Some (Inr df)" by simp
    from procesar_leido [OF this] assms this show ?thesis
      by (auto split: if_splits)
  qed
qed

lemma keys_registro:
  "map fst (registro_de df n) = claves_fijas @ map snake INDICADORES_A_EVALUAR"
  by (simp add: registro_de_def claves_fijas_def comp_def)

lemma map_of_registro_indicador:
  assumes "nombre \<in> set INDICADORES_A_EVALUAR"
  shows "map_of (registro_de df n) (snake nombre) = Some (Num (puntuacion df nombre))"
proof -
  have "distinct (map fst (registro_de df n))"
    using distinct_claves by (simp add: keys_registro)
  moreover have "(snake nombre, Num (puntuacion df nombre)) \<in> set (registro_de df n)"
    using assms by (auto simp: registro_de_def)
  ultimately show ?thesis by (rule map_of_is_SomeI)
qed

lemma map_of_registro_fijas:
  "map_of (registro_de df n) ''organizacion_nombre'' =
     Some (Cell (if isna (celda df 5 1) then Str (prefijo_archivo n) else celda df 5 1))"
  "map_of (registro_de df n) ''periodo_informe'' =
     Some (Cell (if isna (celda df 6 1) then Str ''Desconocido'' else celda df 6 1))"
  "map_of (registro_de df n) ''enlace_original_documentacion'' =
     Some (Cell (if isna (celda df 7 1) then Str ''N/A'' else celda df 7 1))"
  "map_of (registro_de df n) ''cix_total'' =
     Some (Num (binary64 (py_sum (map (puntuacion df) INDICADORES_A_EVALUAR) / 10)))"
  by (simp_all add: registro_de_def)

section \<open>The example inputs, evaluated\<close>

lemma leer_ejemplo:
  "leer_archivo pd_ejemplo [1] ''AcmeCorp-2024.xlsx'' = Some (Inr hoja_ejemplo)"
  by (simp add: leer_archivo_def pd_ejemplo_def lector_ejemplo_def py_endswith_def py_lower_def lower_char_def)

lemma procesar_ejemplo:
  "procesar_evaluacion_empresa pd_ejemplo [1] ''AcmeCorp-2024.xlsx'' =
     Inr registro_ejemplo"
  by code_simp

lemma fila_indicador_ejemplo: "fila_indicador hoja_ejemplo ''Alcance 1'' = Inr [8, 9]"
  by code_simp

lemma Alcance_1_indicador: "''Alcance 1'' \<in> set INDICADORES_A_EVALUAR"
  by (simp add: INDICADORES_A_EVALUAR_def)

lemma marcas_ejemplo:
  "\<not> marca hoja_ejemplo 8 4" "\<not> marca hoja_ejemplo 8 5" "marca hoja_ejemplo 8 6"
  "marca hoja_ejemplo 8 7"
  by code_simp+

lemma Alcance_3_absent: "\<forall>i<nrows hoja_ejemplo. \<not> coincide hoja_ejemplo ''Alcance 3'' i"
  by (simp add: hoja_ejemplo_def coincide_def eq_name_def)

lemma Alcance_2_indicador: "''Alcance 2'' \<in> set INDICADORES_A_EVALUAR"
  by (simp add: INDICADORES_A_EVALUAR_def)

lemma Alcance_3_indicador: "''Alcance 3'' \<in> set INDICADORES_A_EVALUAR"
  by (simp add: INDICADORES_A_EVALUAR_def)

lemma coincide_ejemplo:
  "coincide hoja_ejemplo ''Alcance 1'' 8" "coincide hoja_ejemplo ''Alcance 1'' 9"
  "\<forall>k<8. \<not> coincide hoja_ejemplo ''Alcance 1'' k"
  by (simp_all add: coincide_def eq_name_def hoja_ejemplo_def)









lemma leer_corta: "leer_archivo pd_ejemplo [2] ''corta.csv'' = Some (Inr hoja_corta)"
proof -
  have "py_endswith (py_lower ''corta.csv'') ''.csv''" by code_simp
  then show ?thesis
    by (simp add: leer_archivo_def pd_ejemplo_def lector_ejemplo_def)
qed

lemma leer_estrecha: "leer_archivo pd_ejemplo [3] ''Empresa.CSV'' = Some (Inr hoja_estrecha)"
proof -
  have "py_endswith (py_lower ''Empresa.CSV'') ''.csv''" by code_simp
  then show ?thesis
    by (simp add: leer_archivo_def pd_ejemplo_def lector_ejemplo_def)
qed


lemma ejemplo_shape: "8 \<le> nrows hoja_ejemplo" "2 \<le> ncols hoja_ejemplo"
  by (simp_all add: hoja_ejemplo_def)

lemma estrecha_shape: "8 \<le> nrows hoja_estrecha \<and> 2 \<le> ncols hoja_estrecha"
  by (simp add: hoja_estrecha_def)

lemma corta_shape: "\<not> (8 \<le> nrows hoja_corta \<and> 2 \<le> ncols hoja_corta)"
  by (simp add: hoja_corta_def)

lemma procesar_corta:
  "procesar_evaluacion_empresa pd_ejemplo [2] ''corta.csv''
     = Inl (MalformedInput ''corta.csv'' IndexError)"
  using corta_shape by (simp add: procesar_leido [OF leer_corta])

text \<open>The scores 0.8 and 0.4 give 0.12000000000000002.\<close>

lemma cix_ejemplo:
  "binary64 (py_sum [0, 0, binary64 (8 / 10), binary64 (4 / 10), 0, 0, 0, 0, 0, 0] / 10)
     = 4323455642275677 / 36028797018963968"
  by code_simp

text \<open>Ten scores of 0.4 give 0.39999999999999997, as the interpreter prints it.\<close>

lemma cix_diez_parciales:
  "binary64 (py_sum (replicate 10 (binary64 (4 / 10))) / 10)
     = 7205759403792793 / 18014398509481984"
  by code_simp

lemma pesos: "binary64 (8 / 10) = 3602879701896397 / 4503599627370496"
  "binary64 (4 / 10) = 3602879701896397 / 9007199254740992"
  by code_simp+

lemma puntuacion_primera:
  assumes "i < nrows df" "coincide df nombre i" "\<forall>k<i. \<not> coincide df nombre k"
  shows "puntuacion df nombre = puntos_fila df i"
proof -
  from assms have "primera_fila df nombre = Some i" by (simp add: primera_fila_Some)
  then show ?thesis by (simp add: puntuacion_def)
qed

section \<open>Properties of procesar\_evaluacion\_empresa\<close>

text \<open>
  C1. A sheet that was read and has 8 rows and 2 columns gives a dictionary, and in
  every dictionary the function returns the ten indicator entries are scores \<open>qs\<close>
  and the entry \<open>cix_total\<close> is \<open>sum(qs) / 10\<close> in float arithmetic: the sum of all
  ten scores, a name that was not found counting with its 0, divided by 10 and
  rounded.
\<close>

theorem cix_total_is_sum_over_ten:
  assumes "leer_archivo pd file_bytes file_name = Some (Inr df)"
  shows "(8 \<le> nrows df \<and> 2 \<le> ncols df \<longrightarrow>
            (\<exists>r. procesar_evaluacion_empresa pd file_bytes file_name = Inr r))
       \<and> (\<forall>r. procesar_evaluacion_empresa pd file_bytes file_name = Inr r \<longrightarrow>
            (\<exists>qs. length qs = 10
               \<and> map (\<lambda>nombre. map_of r (snake nombre)) INDICADORES_A_EVALUAR
                   = map (\<lambda>q. Some (Num q)) qs
               \<and> map_of r ''cix_total'' = Some (Num (binary64 (py_sum qs / 10)))))"
proof (intro conjI allI impI)
  assume "8 \<le> nrows df \<and> 2 \<le> ncols df"
  then show "\<exists>r. procesar_evaluacion_empresa pd file_bytes file_name = Inr r"
    by (simp add: procesar_leido [OF assms])
next
  fix r
  assume "procesar_evaluacion_empresa pd file_bytes file_name = Inr r"
  from procesar_Inr [OF this] assms have r: "r = registro_de df file_name" by auto
  let ?qs = "map (puntuacion df) INDICADORES_A_EVALUAR"
  have "length ?qs = 10" by (simp add: length_INDICADORES)
  moreover have "map (\<lambda>nombre. map_of r (snake nombre)) INDICADORES_A_EVALUAR
      = map (\<lambda>q. Some (Num q)) ?qs"
    by (simp add: r map_of_registro_indicador)
  moreover have "map_of r ''cix_total'' = Some (Num (binary64 (py_sum ?qs / 10)))"
    by (simp add: r map_of_registro_fijas)
  ultimately show "\<exists>qs. length qs = 10
               \<and> map (\<lambda>nombre. map_of r (snake nombre)) INDICADORES_A_EVALUAR
                   = map (\<lambda>q. Some (Num q)) qs
               \<and> map_of r ''cix_total'' = Some (Num (binary64 (py_sum qs / 10)))"
    by blast
qed

theorem cix_total_is_sum_over_ten_witness:
  "\<exists>r qs. procesar_evaluacion_empresa pd_ejemplo [1] ''AcmeCorp-2024.xlsx'' = Inr r
      \<and> length qs = 10
      \<and> map (\<lambda>nombre. map_of r (snake nombre)) INDICADORES_A_EVALUAR
          = map (\<lambda>q. Some (Num q)) qs
      \<and> map_of r ''cix_total'' = Some (Num (binary64 (py_sum qs / 10)))
      \<and> map_of r ''cix_total'' = Some (Num (4323455642275677 / 36028797018963968))"
proof -
  from cix_total_is_sum_over_ten [OF leer_ejemplo] procesar_ejemplo
  obtain qs where qs: "length qs = 10"
      "map (\<lambda>nombre. map_of registro_ejemplo (snake nombre)) INDICADORES_A_EVALUAR
         = map (\<lambda>q. Some (Num q)) qs"
      "map_of registro_ejemplo ''cix_total'' = Some (Num (binary64 (py_sum qs / 10)))"
    by blast
  have "map_of registro_ejemplo ''cix_total''
      = Some (Num (4323455642275677 / 36028797018963968))"
    by (simp add: registro_ejemplo_def)
  with qs procesar_ejemplo show ?thesis by blast
qed

text \<open>
  C2. On a sheet that was read and has 8 rows and 2 columns, let \<open>fila_idx\<close> be the
  first row that carries the indicator name in column 0 or column 1. Then the search
  of line 79 finds that row first, the function returns a dictionary, and the score
  in it is decided by columns 4, 5, 6, 7 of that row in this order: it is the weight
  of the first column that exists and whose cell reads "x" after \<open>str\<close>,
  \<open>strip\<close> and \<open>lower\<close> (0, 0.4, 0.8, 1), or 0 when there is no such
  column.
\<close>

theorem score_from_first_marked_column:
  assumes "leer_archivo pd file_bytes file_name = Some (Inr df)"
    and "8 \<le> nrows df" and "2 \<le> ncols df"
    and "nombre \<in> set INDICADORES_A_EVALUAR"
    and "fila_idx < nrows df" and "coincide df nombre fila_idx"
    and "\<forall>k<fila_idx. \<not> coincide df nombre k"
  shows "(\<exists>resto. fila_indicador df nombre = Inr (fila_idx # resto))
       \<and> (\<exists>r. procesar_evaluacion_empresa pd file_bytes file_name = Inr r
            \<and> map_of r (snake nombre) =
                Some (Num (if marca df fila_idx 4 then 0
                           else if marca df fila_idx 5 then binary64 (4 / 10)
                           else if marca df fila_idx 6 then binary64 (8 / 10)
                           else if marca df fila_idx 7 then 1
                           else 0)))"
proof
  from assms(5-7) have "primera_fila df nombre = Some fila_idx"
    by (simp add: primera_fila_Some)
  then have "\<exists>resto. filter (coincide df nombre) [0..<nrows df] = fila_idx # resto"
    by (simp add: primera_fila_def find_filter split: list.splits)
  then show "\<exists>resto. fila_indicador df nombre = Inr (fila_idx # resto)"
    using assms(3) by (simp add: fila_indicador_eq)
next
  have "puntuacion df nombre = puntos_fila df fila_idx"
    using assms(5-7) by (rule puntuacion_primera)
  moreover have "procesar_evaluacion_empresa pd file_bytes file_name
      = Inr (registro_de df file_name)"
    using assms(2,3) by (simp add: procesar_leido [OF assms(1)])
  ultimately show "\<exists>r. procesar_evaluacion_empresa pd file_bytes file_name = Inr r
            \<and> map_of r (snake nombre) =
                Some (Num (if marca df fila_idx 4 then 0
                           else if marca df fila_idx 5 then binary64 (4 / 10)
                           else if marca df fila_idx 6 then binary64 (8 / 10)
                           else if marca df fila_idx 7 then 1
                           else 0))"
    by (simp add: map_of_registro_indicador [OF assms(4)] puntos_fila_def)
qed

theorem score_from_first_marked_column_witness:
  "fila_indicador hoja_ejemplo ''Alcance 1'' = Inr [8, 9]
   \<and> \<not> marca hoja_ejemplo 8 4 \<and> \<not> marca hoja_ejemplo 8 5
   \<and> marca hoja_ejemplo 8 6 \<and> marca hoja_ejemplo 8 7
   \<and> (\<exists>r. procesar_evaluacion_empresa pd_ejemplo [1] ''AcmeCorp-2024.xlsx'' = Inr r
          \<and> map_of r (snake ''Alcance 1'') = Some (Num (binary64 (8 / 10))))"
proof -
  have sz: "8 < nrows hoja_ejemplo" by (simp add: hoja_ejemplo_def)
  from score_from_first_marked_column
    [OF leer_ejemplo ejemplo_shape Alcance_1_indicador sz coincide_ejemplo(1)
        coincide_ejemplo(3)]
    marcas_ejemplo
  have "\<exists>r. procesar_evaluacion_empresa pd_ejemplo [1] ''AcmeCorp-2024.xlsx'' = Inr r
          \<and> map_of r (snake ''Alcance 1'') = Some (Num (binary64 (8 / 10)))"
    by simp
  with fila_indicador_ejemplo marcas_ejemplo show ?thesis by blast
qed

text \<open>
  C3, as stated, fails: on a sheet of three rows the name "Alcance 1" stands in no
  row, the search finds nothing, and yet no dictionary is returned: the function ends
  with the failure of line 119, raised at the metadata cell (5, 1).
\<close>

theorem absent_name_on_short_sheet_gives_no_record:
  "leer_archivo pd_ejemplo [2] ''corta.csv'' = Some (Inr hoja_corta)
   \<and> fila_indicador hoja_corta ''Alcance 1'' = Inr []
   \<and> procesar_evaluacion_empresa pd_ejemplo [2] ''corta.csv''
       = Inl (MalformedInput ''corta.csv'' IndexError)"
proof -
  have "fila_indicador hoja_corta ''Alcance 1'' = Inr []"
    by (simp add: fila_indicador_eq hoja_corta_def coincide_def eq_name_def)
  with leer_corta procesar_corta show ?thesis by blast
qed

text \<open>
  C3, amended. For a sheet that was read, a dictionary is returned as soon as the
  sheet has 8 rows and 2 columns, whichever indicator names it holds. Every dictionary
  returned has the four fixed keys followed by one key per indicator name (ten
  distinct keys, each with a score), and the score of a name that stands in no row
  of column 0 or column 1 is 0.
\<close>

theorem ten_indicator_entries_absent_zero:
  assumes "leer_archivo pd file_bytes file_name = Some (Inr df)"
  shows "(8 \<le> nrows df \<and> 2 \<le> ncols df \<longrightarrow>
            (\<exists>r. procesar_evaluacion_empresa pd file_bytes file_name = Inr r))
       \<and> (\<forall>r. procesar_evaluacion_empresa pd file_bytes file_name = Inr r \<longrightarrow>
            map fst r = claves_fijas @ map snake INDICADORES_A_EVALUAR
          \<and> distinct (map fst r)
          \<and> length (map snake INDICADORES_A_EVALUAR) = 10
          \<and> (\<forall>nombre \<in> set INDICADORES_A_EVALUAR.
               (\<exists>q. map_of r (snake nombre) = Some (Num q))
             \<and> ((\<forall>i<nrows df. \<not> coincide df nombre i) \<longrightarrow>
                  map_of r (snake nombre) = Some (Num 0))))"
proof (intro conjI allI impI)
  assume "8 \<le> nrows df \<and> 2 \<le> ncols df"
  then show "\<exists>r. procesar_evaluacion_empresa pd file_bytes file_name = Inr r"
    by (simp add: procesar_leido [OF assms])
next
  fix r
  assume "procesar_evaluacion_empresa pd file_bytes file_name = Inr r"
  from procesar_Inr [OF this] assms have r: "r = registro_de df file_name" by auto
  show "map fst r = claves_fijas @ map snake INDICADORES_A_EVALUAR"
    by (simp add: r keys_registro)
  show "distinct (map fst r)"
    using distinct_claves by (simp add: r keys_registro)
  show "length (map snake INDICADORES_A_EVALUAR) = 10"
    by (simp add: length_INDICADORES)
  show "\<forall>nombre \<in> set INDICADORES_A_EVALUAR.
               (\<exists>q. map_of r (snake nombre) = Some (Num q))
             \<and> ((\<forall>i<nrows df. \<not> coincide df nombre i) \<longrightarrow>
                  map_of r (snake nombre) = Some (Num 0))"
  proof (intro ballI conjI impI)
    fix nombre
    assume nm: "nombre \<in> set INDICADORES_A_EVALUAR"
    show "\<exists>q. map_of r (snake nombre) = Some (Num q)"
      by (simp add: r map_of_registro_indicador [OF nm])
    assume "\<forall>i<nrows df. \<not> coincide df nombre i"
    then have "primera_fila df nombre = None" by (simp add: primera_fila_None)
    then show "map_of r (snake nombre) = Some (Num 0)"
      by (simp add: r map_of_registro_indicador [OF nm] puntuacion_def)
  qed
qed

theorem ten_indicator_entries_absent_zero_witness:
  "fila_indicador hoja_ejemplo ''Alcance 3'' = Inr []
   \<and> (\<exists>r. procesar_evaluacion_empresa pd_ejemplo [1] ''AcmeCorp-2024.xlsx'' = Inr r
        \<and> length (map fst r) = 14
        \<and> map fst r = claves_fijas @ map snake INDICADORES_A_EVALUAR
        \<and> map_of r (snake ''Alcance 3'') = Some (Num 0))"
proof -
  from ten_indicator_entries_absent_zero [OF leer_ejemplo] procesar_ejemplo
  have all: "map fst registro_ejemplo = claves_fijas @ map snake INDICADORES_A_EVALUAR
      \<and> distinct (map fst registro_ejemplo)
      \<and> length (map snake INDICADORES_A_EVALUAR) = 10
      \<and> (\<forall>nombre \<in> set INDICADORES_A_EVALUAR.
            (\<exists>q. map_of registro_ejemplo (snake nombre) = Some (Num q))
          \<and> ((\<forall>i<nrows hoja_ejemplo. \<not> coincide hoja_ejemplo nombre i) \<longrightarrow>
               map_of registro_ejemplo (snake nombre) = Some (Num 0)))"
    by blast
  then have keys: "map fst registro_ejemplo = claves_fijas @ map snake INDICADORES_A_EVALUAR"
    by blast
  from all Alcance_3_indicador Alcance_3_absent
  have zero: "map_of registro_ejemplo (snake ''Alcance 3'') = Some (Num 0)"
    by blast
  have len: "length (map fst registro_ejemplo) = 14"
    by (simp add: registro_ejemplo_def)
  have none: "fila_indicador hoja_ejemplo ''Alcance 3'' = Inr []"
    using Alcance_3_absent ejemplo_shape(2) by (simp add: fila_indicador_eq filter_empty_conv)
  from procesar_ejemplo len keys zero
  have "\<exists>r. procesar_evaluacion_empresa pd_ejemplo [1] ''AcmeCorp-2024.xlsx'' = Inr r
        \<and> length (map fst r) = 14
        \<and> map fst r = claves_fijas @ map snake INDICADORES_A_EVALUAR
        \<and> map_of r (snake ''Alcance 3'') = Some (Num 0)"
    by blast
  with none show ?thesis by blast
qed

lemma nan_no_marca: "py_lower (py_strip ''nan'') \<noteq> ''x''"
  by code_simp

lemma marca_ensanchar: "marca (ensanchar df) r c = marca df r c"
  by (auto simp: marca_def ensanchar_def nan_no_marca)

lemma coincide_ensanchar: "2 \<le> ncols df \<Longrightarrow> coincide (ensanchar df) nombre = coincide df nombre"
  by (auto simp: coincide_def ensanchar_def fun_eq_iff)

lemma puntuacion_ensanchar:
  "2 \<le> ncols df \<Longrightarrow> puntuacion (ensanchar df) nombre = puntuacion df nombre"
proof -
  assume big: "2 \<le> ncols df"
  have "nrows (ensanchar df) = nrows df" by (simp add: ensanchar_def)
  then have "primera_fila (ensanchar df) nombre = primera_fila df nombre"
    by (simp add: primera_fila_def coincide_ensanchar [OF big])
  moreover have "puntos_fila (ensanchar df) i = puntos_fila df i" for i
    by (simp add: puntos_fila_def marca_ensanchar)
  ultimately show ?thesis
    by (simp add: puntuacion_def split: option.split)
qed

lemma registro_de_ensanchar:
  assumes "2 \<le> ncols df"
  shows "registro_de (ensanchar df) n = registro_de df n"
proof -
  have c: "celda (ensanchar df) r 1 = celda df r 1" for r
    using assms by (simp add: ensanchar_def)
  have p: "puntuacion (ensanchar df) = puntuacion df"
    using puntuacion_ensanchar [OF assms] by (simp add: fun_eq_iff)
  show ?thesis unfolding registro_de_def c p ..
qed

text \<open>
  C4, as stated, fails: a sheet of three rows has no cell (5, 1); reading it raises
  IndexError, no fall-back value is used and the function ends with the failure of
  line 119.
\<close>

theorem short_sheet_is_out_of_bounds_failure:
  "leer_archivo pd_ejemplo [2] ''corta.csv'' = Some (Inr hoja_corta)
   \<and> nrows hoja_corta = 3
   \<and> iloc hoja_corta 5 1 = Inl IndexError
   \<and> procesar_evaluacion_empresa pd_ejemplo [2] ''corta.csv''
       = Inl (MalformedInput ''corta.csv'' IndexError)"
proof -
  have "nrows hoja_corta = 3" by (simp add: hoja_corta_def)
  moreover have "iloc hoja_corta 5 1 = Inl IndexError"
    by (simp add: iloc_def hoja_corta_def)
  moreover have "procesar_evaluacion_empresa pd_ejemplo [2] ''corta.csv''
       = Inl (MalformedInput ''corta.csv'' IndexError)"
    by (simp add: procesar_leido [OF leer_corta] hoja_corta_def)
  ultimately show ?thesis using leer_corta by simp
qed

text \<open>
  C4, amended. A sheet with at least 8 rows and 2 columns never fails on a position:
  the function returns the dictionary it returns for the same sheet widened to eight
  columns with blank cells, so a rating column beyond the width counts as a cell
  without a mark. A sheet with fewer than 8 rows or fewer than 2 columns fails with
  IndexError at the metadata cells (5, 1), (6, 1) or (7, 1).
\<close>

theorem missing_rating_columns_are_blank_cells:
  assumes "leer_archivo pd file_bytes file_name = Some (Inr df)"
  shows "(8 \<le> nrows df \<and> 2 \<le> ncols df \<longrightarrow>
           (\<exists>r. procesar_evaluacion_empresa pd file_bytes file_name = Inr r
               \<and> extraer_datos (ensanchar df) file_name = Inr r))
       \<and> (\<not> (8 \<le> nrows df \<and> 2 \<le> ncols df) \<longrightarrow>
           procesar_evaluacion_empresa pd file_bytes file_name
             = Inl (MalformedInput file_name IndexError))"
proof (intro conjI impI)
  assume big: "8 \<le> nrows df \<and> 2 \<le> ncols df"
  then have "8 \<le> nrows (ensanchar df)" "2 \<le> ncols (ensanchar df)"
    by (simp_all add: ensanchar_def)
  then have "extraer_datos (ensanchar df) file_name = Inr (registro_de df file_name)"
    using big by (simp add: extraer_datos_big registro_de_ensanchar)
  moreover have "procesar_evaluacion_empresa pd file_bytes file_name
      = Inr (registro_de df file_name)"
    using big by (simp add: procesar_leido [OF assms])
  ultimately show "\<exists>r. procesar_evaluacion_empresa pd file_bytes file_name = Inr r
               \<and> extraer_datos (ensanchar df) file_name = Inr r"
    by blast
next
  assume "\<not> (8 \<le> nrows df \<and> 2 \<le> ncols df)"
  then show "procesar_evaluacion_empresa pd file_bytes file_name
             = Inl (MalformedInput file_name IndexError)"
    by (simp add: procesar_leido [OF assms])
qed

lemma estrecha_alcance_2: "puntuacion hoja_estrecha ''Alcance 2'' = binary64 (4 / 10)"
  by code_simp

lemma estrecha_alcance_3:
  "primera_fila hoja_estrecha ''Alcance 3'' = Some 4" "puntuacion hoja_estrecha ''Alcance 3'' = 0"
  by code_simp+

theorem missing_rating_columns_are_blank_cells_witness:
  "ncols hoja_estrecha = 6
   \<and> primera_fila hoja_estrecha ''Alcance 3'' = Some 4
   \<and> (\<exists>r. procesar_evaluacion_empresa pd_ejemplo [3] ''Empresa.CSV'' = Inr r
          \<and> extraer_datos (ensanchar hoja_estrecha) ''Empresa.CSV'' = Inr r
          \<and> map_of r (snake ''Alcance 2'') = Some (Num (binary64 (4 / 10)))
          \<and> map_of r (snake ''Alcance 3'') = Some (Num 0))
   \<and> procesar_evaluacion_empresa pd_ejemplo [2] ''corta.csv''
       = Inl (MalformedInput ''corta.csv'' IndexError)"
proof -
  have a: "ncols hoja_estrecha = 6" by (simp add: hoja_estrecha_def)
  from missing_rating_columns_are_blank_cells [OF leer_estrecha] estrecha_shape
  obtain r where r: "procesar_evaluacion_empresa pd_ejemplo [3] ''Empresa.CSV'' = Inr r"
    "extraer_datos (ensanchar hoja_estrecha) ''Empresa.CSV'' = Inr r"
    by blast
  from r(1) estrecha_shape have "r = registro_de hoja_estrecha ''Empresa.CSV''"
    by (simp add: procesar_leido [OF leer_estrecha])
  then have "map_of r (snake ''Alcance 2'') = Some (Num (binary64 (4 / 10)))"
    and "map_of r (snake ''Alcance 3'') = Some (Num 0)"
    by (simp_all add: map_of_registro_indicador [OF Alcance_2_indicador]
        map_of_registro_indicador [OF Alcance_3_indicador] estrecha_alcance_2 estrecha_alcance_3)
  with r have b: "\<exists>r. procesar_evaluacion_empresa pd_ejemplo [3] ''Empresa.CSV'' = Inr r
          \<and> extraer_datos (ensanchar hoja_estrecha) ''Empresa.CSV'' = Inr r
          \<and> map_of r (snake ''Alcance 2'') = Some (Num (binary64 (4 / 10)))
          \<and> map_of r (snake ''Alcance 3'') = Some (Num 0)"
    by blast
  from missing_rating_columns_are_blank_cells [OF leer_corta] corta_shape
  have c: "procesar_evaluacion_empresa pd_ejemplo [2] ''corta.csv''
       = Inl (MalformedInput ''corta.csv'' IndexError)"
    by blast
  show ?thesis by (intro conjI a estrecha_alcance_3(1) b c)
qed






lemma leer_archivo_None:
  "leer_archivo pd b n = None \<longleftrightarrow>
     \<not> py_endswith (py_lower n) ''.csv'' \<and> \<not> py_endswith (py_lower n) ''.xlsx''"
  by (simp add: leer_archivo_def)

lemma procesar_Unsupported:
  "procesar_evaluacion_empresa pd b n = Inl (UnsupportedFormat f) \<longleftrightarrow>
     f = n \<and> leer_archivo pd b n = None"
  by (auto simp: procesar_evaluacion_empresa_def split: option.splits sum.splits)

text \<open>
  C6. A file name whose lower-cased form ends neither in ".csv" nor in ".xlsx" is
  given to no reader and ends in the failure of line 63, without a dictionary. A
  name ending in ".csv" goes to \<open>read_csv\<close>, one ending in ".xlsx" to
  \<open>read_excel\<close>, and neither of them ends in that failure.
\<close>

theorem only_csv_and_xlsx_are_read:
  "(\<not> py_endswith (py_lower file_name) ''.csv'' \<and> \<not> py_endswith (py_lower file_name) ''.xlsx''
      \<longrightarrow> leer_archivo pd file_bytes file_name = None
        \<and> procesar_evaluacion_empresa pd file_bytes file_name = Inl (UnsupportedFormat file_name))
   \<and> (py_endswith (py_lower file_name) ''.csv''
      \<longrightarrow> leer_archivo pd file_bytes file_name = Some (read_csv pd file_bytes)
        \<and> (\<forall>f. procesar_evaluacion_empresa pd file_bytes file_name \<noteq> Inl (UnsupportedFormat f)))
   \<and> (\<not> py_endswith (py_lower file_name) ''.csv'' \<and> py_endswith (py_lower file_name) ''.xlsx''
      \<longrightarrow> leer_archivo pd file_bytes file_name = Some (read_excel pd file_bytes)
        \<and> (\<forall>f. procesar_evaluacion_empresa pd file_bytes file_name \<noteq> Inl (UnsupportedFormat f)))"
  by (simp add: procesar_Unsupported) (simp add: leer_archivo_def)

lemma sufijos_ejemplo:
  "\<not> py_endswith (py_lower ''informe.txt'') ''.csv''"
  "\<not> py_endswith (py_lower ''informe.txt'') ''.xlsx''"
  "py_endswith (py_lower ''Empresa.CSV'') ''.csv''"
  "\<not> py_endswith (py_lower ''AcmeCorp-2024.xlsx'') ''.csv''"
  "py_endswith (py_lower ''AcmeCorp-2024.xlsx'') ''.xlsx''"
  by code_simp+

theorem only_csv_and_xlsx_are_read_witness:
  "procesar_evaluacion_empresa pd_ejemplo [1] ''informe.txt'' = Inl (UnsupportedFormat ''informe.txt'')
   \<and> leer_archivo pd_ejemplo [1] ''informe.txt'' = None
   \<and> leer_archivo pd_ejemplo [3] ''Empresa.CSV'' = Some (read_csv pd_ejemplo [3])
   \<and> leer_archivo pd_ejemplo [1] ''AcmeCorp-2024.xlsx'' = Some (read_excel pd_ejemplo [1])"
  using only_csv_and_xlsx_are_read [of "''informe.txt''" pd_ejemplo "[1]"]
    only_csv_and_xlsx_are_read [of "''Empresa.CSV''" pd_ejemplo "[3]"]
    only_csv_and_xlsx_are_read [of "''AcmeCorp-2024.xlsx''" pd_ejemplo "[1]"]
    sufijos_ejemplo
  by blast

lemma extraer_datos_Inl:
  "extraer_datos df n = Inl e \<longleftrightarrow> e = IndexError \<and> \<not> (8 \<le> nrows df \<and> 2 \<le> ncols df)"
proof (cases "8 \<le> nrows df \<and> 2 \<le> ncols df")
  case True
  then show ?thesis by (simp add: extraer_datos_big)
next
  case False
  then show ?thesis using extraer_datos_small [OF False, of n] by auto
qed

text \<open>
  C7. When the reader raises \<open>e\<close>, the function ends in the failure of line 119 with
  the file name and \<open>e\<close>. When the extraction raises, which happens only as
  IndexError on a sheet with fewer than 8 rows or fewer than 2 columns, it ends in that
  failure with the file name and the exception. Every dictionary returned is the
  complete one of the extraction: the four fixed keys and the ten indicator keys.
\<close>

theorem failure_carries_cause_or_record_is_complete:
  "(leer_archivo pd file_bytes file_name = Some (Inl e) \<longrightarrow>
      procesar_evaluacion_empresa pd file_bytes file_name = Inl (MalformedInput file_name e))
   \<and> (leer_archivo pd file_bytes file_name = Some (Inr df) \<and> extraer_datos df file_name = Inl e \<longrightarrow>
      e = IndexError \<and> \<not> (8 \<le> nrows df \<and> 2 \<le> ncols df)
      \<and> procesar_evaluacion_empresa pd file_bytes file_name = Inl (MalformedInput file_name e))
   \<and> (procesar_evaluacion_empresa pd file_bytes file_name = Inr r \<longrightarrow>
      map fst r = claves_fijas @ map snake INDICADORES_A_EVALUAR
      \<and> (\<exists>df'. leer_archivo pd file_bytes file_name = Some (Inr df')
            \<and> extraer_datos df' file_name = Inr r))"
proof (intro conjI impI)
  assume "leer_archivo pd file_bytes file_name = Some (Inl e)"
  then show "procesar_evaluacion_empresa pd file_bytes file_name = Inl (MalformedInput file_name e)"
    by (simp add: procesar_evaluacion_empresa_def)
next
  assume a: "leer_archivo pd file_bytes file_name = Some (Inr df) \<and> extraer_datos df file_name = Inl e"
  then show "e = IndexError" and "\<not> (8 \<le> nrows df \<and> 2 \<le> ncols df)"
    by (simp_all add: extraer_datos_Inl)
  from a show "procesar_evaluacion_empresa pd file_bytes file_name = Inl (MalformedInput file_name e)"
    by (simp add: procesar_evaluacion_empresa_def)
next
  assume a: "procesar_evaluacion_empresa pd file_bytes file_name = Inr r"
  from procesar_Inr [OF a] obtain df' where
    df': "leer_archivo pd file_bytes file_name = Some (Inr df')" "8 \<le> nrows df'" "2 \<le> ncols df'"
      "r = registro_de df' file_name"
    by blast
  then show "map fst r = claves_fijas @ map snake INDICADORES_A_EVALUAR"
    by (simp add: keys_registro)
  from df' have "extraer_datos df' file_name = Inr r"
    by (simp add: extraer_datos_big)
  with df'(1) show "\<exists>df'. leer_archivo pd file_bytes file_name = Some (Inr df')
            \<and> extraer_datos df' file_name = Inr r"
    by blast
qed

lemma leer_vacio:
  "leer_archivo pd_ejemplo [] ''vacio.csv''
     = Some (Inl (LibraryError ''No columns to parse from file''))"
proof -
  have "py_endswith (py_lower ''vacio.csv'') ''.csv''" by code_simp
  then show ?thesis
    by (simp add: leer_archivo_def pd_ejemplo_def lector_ejemplo_def)
qed

lemma extraer_corta: "extraer_datos hoja_corta ''corta.csv'' = Inl IndexError"
  by (rule extraer_datos_small) (simp add: hoja_corta_def)

theorem failure_carries_cause_or_record_is_complete_witness:
  "procesar_evaluacion_empresa pd_ejemplo [] ''vacio.csv''
     = Inl (MalformedInput ''vacio.csv'' (LibraryError ''No columns to parse from file''))
   \<and> procesar_evaluacion_empresa pd_ejemplo [2] ''corta.csv''
     = Inl (MalformedInput ''corta.csv'' IndexError)
   \<and> procesar_evaluacion_empresa pd_ejemplo [1] ''AcmeCorp-2024.xlsx'' = Inr registro_ejemplo
   \<and> map fst registro_ejemplo = claves_fijas @ map snake INDICADORES_A_EVALUAR"
proof -
  from failure_carries_cause_or_record_is_complete
    [of pd_ejemplo "[]" "''vacio.csv''" "LibraryError ''No columns to parse from file''"]
    leer_vacio
  have a: "procesar_evaluacion_empresa pd_ejemplo [] ''vacio.csv''
     = Inl (MalformedInput ''vacio.csv'' (LibraryError ''No columns to parse from file''))"
    by blast
  from failure_carries_cause_or_record_is_complete
    [of pd_ejemplo "[2]" "''corta.csv''" IndexError hoja_corta] leer_corta extraer_corta
  have b: "procesar_evaluacion_empresa pd_ejemplo [2] ''corta.csv''
     = Inl (MalformedInput ''corta.csv'' IndexError)"
    by blast
  from failure_carries_cause_or_record_is_complete
    [of pd_ejemplo "[1]" "''AcmeCorp-2024.xlsx''" _ _ registro_ejemplo] procesar_ejemplo
  have c: "map fst registro_ejemplo = claves_fijas @ map snake INDICADORES_A_EVALUAR"
    by blast
  show ?thesis by (intro conjI a b c procesar_ejemplo)
qed

text \<open>
  C10. Let two sheets be read, the second being the first with a row \<open>j\<close> replaced
  by any content, and let row \<open>i\<close>, above \<open>j\<close>, be the first row of the first sheet
  that carries the indicator name in column 0 or column 1. Then both calls return a
  dictionary, the score of the indicator is the one read from the rating columns of
  row \<open>i\<close>, and it is the same in both dictionaries: a later row, matching or not,
  has no part in it.
\<close>

theorem first_matching_row_decides:
  assumes "leer_archivo pd file_bytes file_name = Some (Inr df)"
    and "leer_archivo pd' file_bytes' file_name' = Some (Inr (df\<lparr>celda := (celda df)(j := fila')\<rparr>))"
    and "8 \<le> nrows df" and "2 \<le> ncols df"
    and "nombre \<in> set INDICADORES_A_EVALUAR"
    and "i < nrows df" and "coincide df nombre i" and "\<forall>k<i. \<not> coincide df nombre k"
    and "i < j"
  shows "\<exists>r r'. procesar_evaluacion_empresa pd file_bytes file_name = Inr r
          \<and> procesar_evaluacion_empresa pd' file_bytes' file_name' = Inr r'
          \<and> map_of r (snake nombre) = Some (Num (puntos_fila df i))
          \<and> map_of r' (snake nombre) = map_of r (snake nombre)"
proof -
  let ?df' = "df\<lparr>celda := (celda df)(j := fila')\<rparr>"
  have r: "procesar_evaluacion_empresa pd file_bytes file_name = Inr (registro_de df file_name)"
    using assms(3,4) by (simp add: procesar_leido [OF assms(1)])
  have r': "procesar_evaluacion_empresa pd' file_bytes' file_name'
      = Inr (registro_de ?df' file_name')"
    using assms(3,4) by (simp add: procesar_leido [OF assms(2)])
  have same: "coincide ?df' nombre k = coincide df nombre k" if "k \<le> i" for k
    using that assms(9) by (simp add: coincide_def)
  have "puntuacion ?df' nombre = puntos_fila ?df' i"
    using assms(6-8) by (intro puntuacion_primera) (simp_all add: same)
  moreover have "puntos_fila ?df' i = puntos_fila df i"
    using assms(9) by (simp add: puntos_fila_def marca_def)
  moreover have "puntuacion df nombre = puntos_fila df i"
    using assms(6-8) by (rule puntuacion_primera)
  ultimately show ?thesis
    by (simp add: r r' map_of_registro_indicador [OF assms(5)])
qed

lemma leer_otra: "leer_archivo pd_otra [1] ''otra.csv'' = Some (Inr hoja_otra)"
proof -
  have "py_endswith (py_lower ''otra.csv'') ''.csv''" by code_simp
  then show ?thesis by (simp add: leer_archivo_def pd_otra_def)
qed

lemma marcas_fila_9:
  "marca hoja_ejemplo 9 4" "marca hoja_otra 9 7" "coincide hoja_otra ''Alcance 1'' 9"
  by code_simp+

lemma puntos_ejemplo_8: "puntos_fila hoja_ejemplo 8 = binary64 (8 / 10)"
  by (simp add: puntos_fila_def marcas_ejemplo)

theorem first_matching_row_decides_witness:
  "coincide hoja_ejemplo ''Alcance 1'' 8 \<and> coincide hoja_ejemplo ''Alcance 1'' 9
   \<and> marca hoja_ejemplo 9 4
   \<and> coincide hoja_otra ''Alcance 1'' 9 \<and> marca hoja_otra 9 7
   \<and> (\<exists>r r'. procesar_evaluacion_empresa pd_ejemplo [1] ''AcmeCorp-2024.xlsx'' = Inr r
          \<and> procesar_evaluacion_empresa pd_otra [1] ''otra.csv'' = Inr r'
          \<and> map_of r (snake ''Alcance 1'') = Some (Num (binary64 (8 / 10)))
          \<and> map_of r' (snake ''Alcance 1'') = Some (Num (binary64 (8 / 10))))"
proof -
  have sz: "8 < nrows hoja_ejemplo" by (simp add: hoja_ejemplo_def)
  have lt: "(8::nat) < 9" by simp
  from first_matching_row_decides
    [OF leer_ejemplo leer_otra [unfolded hoja_otra_def] ejemplo_shape Alcance_1_indicador sz
        coincide_ejemplo(1) coincide_ejemplo(3) lt]
  obtain r r' where rr:
      "procesar_evaluacion_empresa pd_ejemplo [1] ''AcmeCorp-2024.xlsx'' = Inr r"
      "procesar_evaluacion_empresa pd_otra [1] ''otra.csv'' = Inr r'"
      "map_of r (snake ''Alcance 1'') = Some (Num (puntos_fila hoja_ejemplo 8))"
      "map_of r' (snake ''Alcance 1'') = map_of r (snake ''Alcance 1'')"
    by blast
  from rr(3) have a: "map_of r (snake ''Alcance 1'') = Some (Num (binary64 (8 / 10)))"
    unfolding puntos_ejemplo_8 .
  from rr(4) a have b: "map_of r' (snake ''Alcance 1'') = Some (Num (binary64 (8 / 10)))"
    by (rule trans)
  from rr(1,2) a b
  have "\<exists>r r'. procesar_evaluacion_empresa pd_ejemplo [1] ''AcmeCorp-2024.xlsx'' = Inr r
          \<and> procesar_evaluacion_empresa pd_otra [1] ''otra.csv'' = Inr r'
          \<and> map_of r (snake ''Alcance 1'') = Some (Num (binary64 (8 / 10)))
          \<and> map_of r' (snake ''Alcance 1'') = Some (Num (binary64 (8 / 10)))"
    by blast
  with coincide_ejemplo(1,2) marcas_fila_9 show ?thesis by blast
qed

section \<open>Properties of eliminar\_evaluacion\_de\_db\<close>

lemma eliminar_storage_raises:
  "storage_remove sb [file_name_in_storage] s = (Inl e, s1) \<Longrightarrow>
     eliminar_evaluacion_de_db sb eval_id file_name_in_storage s = ([Error_excepcion e], s1)"
  by (simp add: eliminar_evaluacion_de_db_def)

lemma eliminar_aviso_raises:
  "storage_remove sb [file_name_in_storage] s = (Inr res_storage, s1) \<Longrightarrow>
   aviso_storage file_name_in_storage res_storage = Inl e \<Longrightarrow>
     eliminar_evaluacion_de_db sb eval_id file_name_in_storage s = ([Error_excepcion e], s1)"
  by (simp add: eliminar_evaluacion_de_db_def)

lemma eliminar_row_deletion_runs:
  assumes "storage_remove sb [file_name_in_storage] s = (Inr res_storage, s1)"
    and "aviso_storage file_name_in_storage res_storage = Inr aviso1"
  shows "\<exists>aviso2. eliminar_evaluacion_de_db sb eval_id file_name_in_storage s
           = ([aviso1, aviso2], snd (table_delete_eq_id sb eval_id s1))"
proof -
  obtain out s2 where d: "table_delete_eq_id sb eval_id s1 = (out, s2)"
    by (cases "table_delete_eq_id sb eval_id s1")
  show ?thesis
    by (cases out)
      (auto simp: eliminar_evaluacion_de_db_def assms d split: sum.splits)
qed

lemma aviso_storage_lista: "xs \<noteq> [] \<Longrightarrow> aviso_storage f (PyList xs) = Inl AttributeError"
  by (simp add: aviso_storage_def)

text \<open>
  C8 on three backends, for the row "id-1". When the storage call answers with a
  response that carries an error (the file "b.csv" is not stored), the warning is given
  and the row is deleted, as C8 states. When the storage call raises, and when
  it answers with the list of the objects it removed (the file "a.csv" is stored and
  is removed), the function ends with the notice of line 209 and the row "id-1" is
  still in the table.
\<close>

theorem storage_failure_skips_row_deletion:
  "eliminar_evaluacion_de_db supabase_ejemplo ''id-1'' ''b.csv'' estado_ejemplo
     = ([Warning_storage ''b.csv'' ''Object not found'', Success_db],
        \<lparr>archivos = [''a.csv'', ''otro.csv''], filas_db = [''id-2'']\<rparr>)
   \<and> ''id-1'' \<in> set (filas_db estado_ejemplo)
   \<and> eliminar_evaluacion_de_db supabase_sin_storage ''id-1'' ''a.csv'' estado_ejemplo
     = ([Error_excepcion (LibraryError ''connection refused'')], estado_ejemplo)
   \<and> eliminar_evaluacion_de_db supabase_lista ''id-1'' ''a.csv'' estado_ejemplo
     = ([Error_excepcion AttributeError],
        \<lparr>archivos = [''otro.csv''], filas_db = [''id-1'', ''id-2'']\<rparr>)"
proof -
  have a: "eliminar_evaluacion_de_db supabase_ejemplo ''id-1'' ''b.csv'' estado_ejemplo
     = ([Warning_storage ''b.csv'' ''Object not found'', Success_db],
        \<lparr>archivos = [''a.csv'', ''otro.csv''], filas_db = [''id-2'']\<rparr>)"
    by (simp add: eliminar_evaluacion_de_db_def supabase_ejemplo_def remove_ejemplo_def
        delete_ejemplo_def estado_ejemplo_def aviso_storage_def aviso_db_def)
  have b: "''id-1'' \<in> set (filas_db estado_ejemplo)"
    by (simp add: estado_ejemplo_def)
  have c: "eliminar_evaluacion_de_db supabase_sin_storage ''id-1'' ''a.csv'' estado_ejemplo
     = ([Error_excepcion (LibraryError ''connection refused'')], estado_ejemplo)"
    by (rule eliminar_storage_raises) (simp add: supabase_sin_storage_def)
  have d: "eliminar_evaluacion_de_db supabase_lista ''id-1'' ''a.csv'' estado_ejemplo
     = ([Error_excepcion AttributeError],
        \<lparr>archivos = [''otro.csv''], filas_db = [''id-1'', ''id-2'']\<rparr>)"
    by (simp add: eliminar_evaluacion_de_db_def supabase_lista_def remove_lista_def
        estado_ejemplo_def aviso_storage_def)
  show ?thesis by (intro conjI a b c d)
qed

end
